theory Spec2Isabelle
  imports Complex_Main "HOL-Library.Sublist" "HOL-Library.AList"
begin

section \<open>Python values and the library functions the scorer calls\<close>

text \<open>
  The scorer of \<^verbatim>\<open>pyrit/score/scorer.py\<close> reads the answer of a judge model as JSON.
  What \<^verbatim>\<open>json.loads\<close> returns is a Python object: \<^verbatim>\<open>None\<close>, a bool, an int, a float,
  a str, a list or a dict with str keys. Text is a list of 8-bit characters, read as the
  code points U+0000 to U+00FF. A float is represented by its \<^verbatim>\<open>repr\<close>, which determines
  it (\<^verbatim>\<open>0.8\<close>, \<^verbatim>\<open>1e+16\<close>, \<^verbatim>\<open>inf\<close>, \<^verbatim>\<open>nan\<close>). A dict is the list of its items in insertion
  order.
\<close>

datatype pyval =
    PNone
  | PBool bool
  | PInt int
  | PFloat string
  | PStr string
  | PList "pyval list"
  | PDict "(string \<times> pyval) list"

text \<open>The exception classes that occur; \<^verbatim>\<open>JSONDecodeError\<close> is a subclass of \<^verbatim>\<open>ValueError\<close>.\<close>

datatype py_error =
    JSONDecodeError
  | KeyError string
  | ValueError string
  | AttributeError string
  | IndexError string
  | InvalidJsonException string
  | OtherError string

fun is_ValueError :: "py_error \<Rightarrow> bool" where
  "is_ValueError (ValueError m) = True"
| "is_ValueError JSONDecodeError = True"
| "is_ValueError e = False"

text \<open>Truth value testing, as \<^verbatim>\<open>if x\<close> and \<^verbatim>\<open>x and y\<close> do it.\<close>

fun truthy :: "pyval \<Rightarrow> bool" where
  "truthy PNone = False"
| "truthy (PBool b) = b"
| "truthy (PInt i) = (i \<noteq> 0)"
| "truthy (PFloat r) = (r \<noteq> ''0.0'' \<and> r \<noteq> ''-0.0'')"
| "truthy (PStr s) = (s \<noteq> [])"
| "truthy (PList xs) = (xs \<noteq> [])"
| "truthy (PDict kvs) = (kvs \<noteq> [])"

text \<open>An optional \<^verbatim>\<open>str\<close> argument (default \<^verbatim>\<open>None\<close>) as a Python value.\<close>

fun opt_str :: "string option \<Rightarrow> pyval" where
  "opt_str None = PNone"
| "opt_str (Some s) = PStr s"

fun type_name :: "pyval \<Rightarrow> string" where
  "type_name PNone = ''NoneType''"
| "type_name (PBool b) = ''bool''"
| "type_name (PInt i) = ''int''"
| "type_name (PFloat r) = ''float''"
| "type_name (PStr s) = ''str''"
| "type_name (PList xs) = ''list''"
| "type_name (PDict kvs) = ''dict''"

fun is_dict :: "pyval \<Rightarrow> bool" where
  "is_dict (PDict d) = True"
| "is_dict v = False"

definition quoted :: "string \<Rightarrow> string" where
  "quoted s = CHR 0x27 # s @ [CHR 0x27]"

text \<open>\<^verbatim>\<open>d.get(k)\<close> gives \<^verbatim>\<open>None\<close> for a missing key, \<^verbatim>\<open>d[k]\<close> raises \<^verbatim>\<open>KeyError\<close>.\<close>

definition dict_get :: "(string \<times> pyval) list \<Rightarrow> string \<Rightarrow> pyval" where
  "dict_get d k = (case map_of d k of None \<Rightarrow> PNone | Some v \<Rightarrow> v)"

definition dict_item :: "(string \<times> pyval) list \<Rightarrow> string \<Rightarrow> py_error + pyval" where
  "dict_item d k = (case map_of d k of None \<Rightarrow> Inl (KeyError k) | Some v \<Rightarrow> Inr v)"

text \<open>
  \<^verbatim>\<open>parsed_response.get("category")\<close>: only a dict has the method; on any other value
  the attribute lookup raises \<^verbatim>\<open>AttributeError\<close>.
\<close>

fun get_method :: "pyval \<Rightarrow> string \<Rightarrow> py_error + pyval" where
  "get_method (PDict d) k = Inr (dict_get d k)"
| "get_method v k =
     Inl (AttributeError (quoted (type_name v) @ '' object has no attribute '' @ quoted ''get''))"

text \<open>
  \<^verbatim>\<open>parsed_response["score_value"]\<close>. The source only reaches it after \<^verbatim>\<open>.get\<close> has
  succeeded, that is on a dict; the other cases raise \<^verbatim>\<open>TypeError\<close>, here \<open>OtherError\<close>.
\<close>

fun subscript :: "pyval \<Rightarrow> string \<Rightarrow> py_error + pyval" where
  "subscript (PDict d) k = dict_item d k"
| "subscript v k = Inl (OtherError ''TypeError'')"

subsection \<open>\<^verbatim>\<open>str\<close> and \<^verbatim>\<open>repr\<close>\<close>

fun digits_of :: "nat \<Rightarrow> string" where
  "digits_of n =
     (if n < 10 then [''0123456789'' ! n]
      else digits_of (n div 10) @ [''0123456789'' ! (n mod 10)])"

definition str_int :: "int \<Rightarrow> string" where
  "str_int i = (if i < 0 then CHR ''-'' # digits_of (nat (- i)) else digits_of (nat i))"

definition hex2 :: "nat \<Rightarrow> string" where
  "hex2 n = [''0123456789abcdef'' ! (n div 16), ''0123456789abcdef'' ! (n mod 16)]"

text \<open>
  \<^verbatim>\<open>repr\<close> of a str: single quotes unless the text has a single and no double quote;
  the quote and the backslash escaped, tab, newline and return by letter, the other
  characters that are not printable as \<^verbatim>\<open>\xNN\<close>.
\<close>

definition repr_char :: "char \<Rightarrow> char \<Rightarrow> string" where
  "repr_char q c =
     (let n = (of_char c :: nat) in
      if c = q \<or> n = 92 then [CHR 0x5C, c]
      else if n = 9 then [CHR 0x5C, CHR ''t'']
      else if n = 10 then [CHR 0x5C, CHR ''n'']
      else if n = 13 then [CHR 0x5C, CHR ''r'']
      else if n < 32 \<or> (127 \<le> n \<and> n \<le> 160) \<or> n = 173 then CHR 0x5C # CHR ''x'' # hex2 n
      else [c])"

definition repr_str :: "string \<Rightarrow> string" where
  "repr_str s =
     (let q = (if CHR 0x27 \<in> set s \<and> CHR 0x22 \<notin> set s then CHR 0x22 else CHR 0x27)
      in q # concat (map (repr_char q) s) @ [q])"

fun join :: "string \<Rightarrow> string list \<Rightarrow> string" where
  "join sep [] = []"
| "join sep [x] = x"
| "join sep (x # y # ys) = x @ sep @ join sep (y # ys)"

fun py_repr :: "pyval \<Rightarrow> string"
  and py_repr_list :: "pyval list \<Rightarrow> string list"
  and py_repr_items :: "(string \<times> pyval) list \<Rightarrow> string list" where
  "py_repr PNone = ''None''"
| "py_repr (PBool b) = (if b then ''True'' else ''False'')"
| "py_repr (PInt i) = str_int i"
| "py_repr (PFloat r) = r"
| "py_repr (PStr s) = repr_str s"
| "py_repr (PList xs) = ''['' @ join '', '' (py_repr_list xs) @ '']''"
| "py_repr (PDict kvs) = ''{'' @ join '', '' (py_repr_items kvs) @ ''}''"
| "py_repr_list [] = []"
| "py_repr_list (x # xs) = py_repr x # py_repr_list xs"
| "py_repr_items [] = []"
| "py_repr_items ((k, v) # kvs) = (repr_str k @ '': '' @ py_repr v) # py_repr_items kvs"

fun py_str :: "pyval \<Rightarrow> string" where
  "py_str (PStr s) = s"
| "py_str v = py_repr v"

subsection \<open>\<^verbatim>\<open>float\<close> of a str\<close>

text \<open>
  \<^verbatim>\<open>float(s)\<close> strips white space, then accepts an optional sign followed by a decimal
  number (digits with single underscores between them, an optional fraction, an optional
  exponent) or by one of \<^verbatim>\<open>inf\<close>, \<^verbatim>\<open>infinity\<close>, \<^verbatim>\<open>nan\<close> in any case; anything else raises
  \<^verbatim>\<open>ValueError\<close>. The result is kept as the kind of token that was read.
\<close>

datatype float_token = Decimal | Infinity | NaN

definition is_digit :: "char \<Rightarrow> bool" where
  "is_digit c = (c \<in> set ''0123456789'')"

definition is_space :: "char \<Rightarrow> bool" where
  "is_space c = ((of_char c :: nat) \<in> set [9, 10, 11, 12, 13, 32, 133, 160])"

definition strip :: "string \<Rightarrow> string" where
  "strip s = rev (dropWhile is_space (rev (dropWhile is_space s)))"

definition lower_char :: "char \<Rightarrow> char" where
  "lower_char c =
     (let n = (of_char c :: nat) in if 65 \<le> n \<and> n \<le> 90 then char_of (n + 32) else c)"

fun digitpart_rest :: "string \<Rightarrow> string" where
  "digitpart_rest (c # d # cs) =
     (if c = CHR ''_'' \<and> is_digit d then digitpart_rest cs
      else if is_digit c then digitpart_rest (d # cs)
      else c # d # cs)"
| "digitpart_rest [c] = (if is_digit c then [] else [c])"
| "digitpart_rest [] = []"

text \<open>What follows a leading \<^verbatim>\<open>digitpart\<close>, if there is one.\<close>

fun digitpart :: "string \<Rightarrow> string option" where
  "digitpart [] = None"
| "digitpart (c # cs) = (if is_digit c then Some (digitpart_rest cs) else None)"

text \<open>\<^verbatim>\<open>number ::= [digitpart] "." digitpart | digitpart ["."]\<close>\<close>

definition number :: "string \<Rightarrow> string option" where
  "number s =
     (case digitpart s of
        Some r \<Rightarrow>
          (case r of
             c # r' \<Rightarrow>
               (if c = CHR ''.'' then (case digitpart r' of Some r'' \<Rightarrow> Some r'' | None \<Rightarrow> Some r')
                else Some r)
           | [] \<Rightarrow> Some r)
      | None \<Rightarrow>
          (case s of
             c # r' \<Rightarrow> (if c = CHR ''.'' then digitpart r' else None)
           | [] \<Rightarrow> None))"

definition unsign :: "string \<Rightarrow> string" where
  "unsign s = (case s of c # cs \<Rightarrow> (if c = CHR ''+'' \<or> c = CHR ''-'' then cs else s) | [] \<Rightarrow> s)"

text \<open>\<^verbatim>\<open>exponent ::= ("e" | "E") [sign] digitpart\<close>, optional, up to the end of the text.\<close>

definition exponent_ok :: "string \<Rightarrow> bool" where
  "exponent_ok s =
     (case s of
        [] \<Rightarrow> True
      | c # cs \<Rightarrow> (c = CHR ''e'' \<or> c = CHR ''E'') \<and> digitpart (unsign cs) = Some [])"

definition float_syntax :: "string \<Rightarrow> float_token option" where
  "float_syntax s =
     (let t = unsign (strip s); l = map lower_char t in
      if l = ''inf'' \<or> l = ''infinity'' then Some Infinity
      else if l = ''nan'' then Some NaN
      else (case number t of
              Some r \<Rightarrow> (if exponent_ok r then Some Decimal else None)
            | None \<Rightarrow> None))"

definition py_float :: "string \<Rightarrow> py_error + float_token" where
  "py_float s =
     (case float_syntax s of
        None \<Rightarrow> Inl (ValueError (''could not convert string to float: '' @ repr_str s))
      | Some t \<Rightarrow> Inr t)"


section \<open>The data model\<close>

text \<open>
  \<^verbatim>\<open>ScoreType\<close>, \<^verbatim>\<open>UnvalidatedScore\<close>, \<^verbatim>\<open>PromptRequestResponse\<close> and \<^verbatim>\<open>PromptRequestPiece\<close>
  are declared in \<^verbatim>\<open>pyrit.models\<close>; the records hold the fields that the scorer reads or
  writes.
\<close>

datatype score_type = true_false | float_scale

record prompt_request_piece =
  converted_value :: string

record prompt_request_response =
  request_pieces :: "prompt_request_piece list"

record unvalidated_score =
  raw_score_value :: string
  score_value_description :: pyval
  score_type :: score_type
  score_category :: pyval
  score_rationale :: pyval
  scorer_class_identifier :: "(string \<times> string option) list"
  score_metadata :: pyval
  prompt_request_response_id :: string
  task :: "string option"

text \<open>
  A scorer instance: its class (\<^verbatim>\<open>self.__class__\<close>, with \<^verbatim>\<open>__name__\<close> and \<^verbatim>\<open>__module__\<close>),
  its \<^verbatim>\<open>scorer_type\<close>, and the attribute \<^verbatim>\<open>_prompt_target\<close>, which an instance may lack.
  Whatever else a concrete scorer stores is the record's extension.
\<close>

record py_class =
  class_name :: string
  class_module :: string

record 't scorer =
  scorer_class :: py_class
  scorer_type :: score_type
  prompt_target_attr :: "'t option"

section \<open>The scorer's methods\<close>

text \<open>Lines 106 to 122. Python's floats are read as real numbers.\<close>

definition scale_value_float :: "real \<Rightarrow> real \<Rightarrow> real \<Rightarrow> real" where
  "scale_value_float value min_value max_value =
     (if max_value = min_value then 0
      else (let normalized_value = (value - min_value) / (max_value - min_value)
            in normalized_value))"

text \<open>Lines 124 to 135: a dict filled by three assignments.\<close>

definition get_identifier :: "('t, 'x) scorer_scheme \<Rightarrow> (string \<times> string option) list" where
  "get_identifier self =
     (let identifier = [];
          identifier = AList.update ''__type__'' (Some (class_name (scorer_class self))) identifier;
          identifier = AList.update ''__module__'' (Some (class_module (scorer_class self))) identifier;
          identifier = AList.update ''sub_identifier'' None identifier
      in identifier)"

subsection \<open>\<^verbatim>\<open>send_chat_target_async\<close>, lines 137 to 201\<close>

text \<open>
  The first \<^verbatim>\<open>try\<close> block, lines 164 to 184, from \<^verbatim>\<open>json.loads\<close> on. \<^verbatim>\<open>json.loads\<close> is the
  standard library's and a parameter here: \<open>loads s = None\<close> when it raises
  \<^verbatim>\<open>JSONDecodeError\<close>. The arguments of the \<^verbatim>\<open>UnvalidatedScore\<close> are evaluated in the
  order in which they are written.
\<close>

definition first_try ::
  "(string \<Rightarrow> pyval option) \<Rightarrow> ('t, 'x) scorer_scheme \<Rightarrow> string \<Rightarrow> string \<Rightarrow>
     string option \<Rightarrow> string option \<Rightarrow> py_error + unvalidated_score" where
  "first_try loads self response_json scored_prompt_id category task_arg =
     (case loads response_json of
        None \<Rightarrow> Inl JSONDecodeError
      | Some parsed_response \<Rightarrow>
     (case get_method parsed_response ''category'' of
        Inl e \<Rightarrow> Inl e
      | Inr category_response \<Rightarrow>
     if truthy category_response \<and> truthy (opt_str category)
     then Inl (ValueError ''Category is present in the response and an argument'')
     else
       let category = (if truthy category_response then category_response else opt_str category) in
     (case subscript parsed_response ''score_value'' of
        Inl e \<Rightarrow> Inl e
      | Inr score_value \<Rightarrow>
     (case get_method parsed_response ''description'' of
        Inl e \<Rightarrow> Inl e
      | Inr description \<Rightarrow>
     (case subscript parsed_response ''rationale'' of
        Inl e \<Rightarrow> Inl e
      | Inr rationale \<Rightarrow>
     (case get_method parsed_response ''metadata'' of
        Inl e \<Rightarrow> Inl e
      | Inr metadata \<Rightarrow>
          Inr \<lparr> raw_score_value = py_str score_value,
                score_value_description = description,
                score_type = scorer_type self,
                score_category = category,
                score_rationale = rationale,
                scorer_class_identifier = get_identifier self,
                score_metadata = metadata,
                prompt_request_response_id = scored_prompt_id,
                task = task_arg \<rparr>))))))"

text \<open>The handlers of the first block, lines 186 to 190; any other exception passes.\<close>

definition first_except :: "string \<Rightarrow> py_error \<Rightarrow> py_error" where
  "first_except response_json e =
     (case e of
        JSONDecodeError \<Rightarrow> InvalidJsonException (''Invalid JSON response: '' @ response_json)
      | KeyError k \<Rightarrow>
          InvalidJsonException (''Invalid JSON response, missing Key: '' @ response_json)
      | _ \<Rightarrow> e)"

text \<open>The second \<^verbatim>\<open>try\<close> block, lines 192 to 199.\<close>

definition second_try :: "('t, 'x) scorer_scheme \<Rightarrow> unvalidated_score \<Rightarrow> py_error + unit" where
  "second_try self score =
     (if scorer_type self = float_scale
      then (case py_float (raw_score_value score) of Inl e \<Rightarrow> Inl e | Inr x \<Rightarrow> Inr ())
      else Inr ())"

definition second_except :: "unvalidated_score \<Rightarrow> py_error \<Rightarrow> py_error" where
  "second_except score e =
     (if is_ValueError e
      then InvalidJsonException
             (''Invalid JSON response, score_value should be a float not this: ''
                @ raw_score_value score)
      else e)"

text \<open>Lines 163 to 201: what the function does with the response of the judge.\<close>

definition score_response ::
  "(string \<Rightarrow> pyval option) \<Rightarrow> ('t, 'x) scorer_scheme \<Rightarrow> prompt_request_response \<Rightarrow> string \<Rightarrow>
     string option \<Rightarrow> string option \<Rightarrow> py_error + unvalidated_score" where
  "score_response loads self response scored_prompt_id category task_arg =
     (case request_pieces response of
        [] \<Rightarrow> Inl (IndexError ''list index out of range'')
      | piece # rest \<Rightarrow>
          (let response_json = converted_value piece in
           case first_try loads self response_json scored_prompt_id category task_arg of
             Inl e \<Rightarrow> Inl (first_except response_json e)
           | Inr score \<Rightarrow>
               (case second_try self score of
                  Inl e \<Rightarrow> Inl (second_except score e)
                | Inr u \<Rightarrow> Inr score)))"

text \<open>
  The undecorated function. The judge is a state \<open>'s\<close> and \<^verbatim>\<open>send_prompt_async\<close> a step
  on it that answers or raises.
\<close>

definition send_chat_target_body ::
  "(string \<Rightarrow> pyval option) \<Rightarrow> ('t, 'x) scorer_scheme \<Rightarrow>
     ('rq \<Rightarrow> 's \<Rightarrow> (py_error + prompt_request_response) \<times> 's) \<Rightarrow> 'rq \<Rightarrow> string \<Rightarrow>
     string option \<Rightarrow> string option \<Rightarrow> 's \<Rightarrow> (py_error + unvalidated_score) \<times> 's" where
  "send_chat_target_body loads self send_prompt_async scorer_llm_request scored_prompt_id
       category task_arg s =
     (case send_prompt_async scorer_llm_request s of
        (Inl e, s') \<Rightarrow> (Inl e, s')
      | (Inr response, s') \<Rightarrow>
          (score_response loads self response scored_prompt_id category task_arg, s'))"

text \<open>
  Modelled from the spec: the decorator \<^verbatim>\<open>pyrit_json_retry\<close> of
  \<^verbatim>\<open>pyrit.exceptions.exception_classes\<close>, which is not among the sources. The spec: on a
  recoverable failure (\<^verbatim>\<open>InvalidResponseFormat\<close>, the source's \<^verbatim>\<open>InvalidJsonException\<close>) the
  call is repeated, up to a fixed maximum number of attempts; on exhaustion the last
  failure is surfaced; every other failure propagates at once; a success is not
  repeated. The maximum is a parameter. The result also tells how many attempts were made.
  Delays between attempts are not modelled.
\<close>

fun recoverable :: "py_error \<Rightarrow> bool" where
  "recoverable (InvalidJsonException m) = True"
| "recoverable e = False"

primrec retry_from ::
  "nat \<Rightarrow> nat \<Rightarrow> ('s \<Rightarrow> (py_error + 'a) \<times> 's) \<Rightarrow> 's \<Rightarrow> (py_error + 'a) \<times> nat \<times> 's" where
  "retry_from 0 made f s = (case f s of (r, s') \<Rightarrow> (r, Suc made, s'))"
| "retry_from (Suc n) made f s =
     (case f s of
        (Inl e, s') \<Rightarrow>
          (if recoverable e then retry_from n (Suc made) f s' else (Inl e, Suc made, s'))
      | (Inr v, s') \<Rightarrow> (Inr v, Suc made, s'))"

definition pyrit_json_retry ::
  "nat \<Rightarrow> ('s \<Rightarrow> (py_error + 'a) \<times> 's) \<Rightarrow> 's \<Rightarrow> (py_error + 'a) \<times> nat \<times> 's" where
  "pyrit_json_retry max_attempts f s = retry_from (max_attempts - 1) 0 f s"

text \<open>The decorated function: result, attempts made, state of the judge afterwards.\<close>

definition send_chat_target_async ::
  "nat \<Rightarrow> (string \<Rightarrow> pyval option) \<Rightarrow> ('t, 'x) scorer_scheme \<Rightarrow>
     ('rq \<Rightarrow> 's \<Rightarrow> (py_error + prompt_request_response) \<times> 's) \<Rightarrow> 'rq \<Rightarrow> string \<Rightarrow>
     string option \<Rightarrow> string option \<Rightarrow> 's \<Rightarrow> (py_error + unvalidated_score) \<times> nat \<times> 's" where
  "send_chat_target_async max_attempts loads self send_prompt_async scorer_llm_request
       scored_prompt_id category task_arg =
     pyrit_json_retry max_attempts
       (send_chat_target_body loads self send_prompt_async scorer_llm_request scored_prompt_id
          category task_arg)"

subsection \<open>\<^verbatim>\<open>score_prompts_batch_async\<close>, lines 69 to 82\<close>

text \<open>
  \<^verbatim>\<open>batch_task_async\<close> of \<^verbatim>\<open>pyrit.common.batch_helper\<close> is not among the sources and is a
  parameter of the method. \<^verbatim>\<open>score_async\<close> is abstract: a unit of work is given by its
  outcome on each subject. An omitted \<^verbatim>\<open>batch_size\<close> is \<open>None\<close>.
\<close>

definition score_prompts_batch_async ::
  "(('p \<Rightarrow> py_error + 'sc list) \<Rightarrow> 't option \<Rightarrow> int \<Rightarrow> 'p list \<Rightarrow> py_error + 'sc list list) \<Rightarrow>
     ('t, 'x) scorer_scheme \<Rightarrow> ('p \<Rightarrow> py_error + 'sc list) \<Rightarrow> 'p list \<Rightarrow> int option \<Rightarrow>
     py_error + 'sc list" where
  "score_prompts_batch_async batch_task self score_async prompts batch_size_arg =
     (let batch_size = (case batch_size_arg of None \<Rightarrow> 10 | Some b \<Rightarrow> b);
          prompt_target = prompt_target_attr self
      in case batch_task score_async prompt_target batch_size prompts of
           Inl e \<Rightarrow> Inl e
         | Inr results \<Rightarrow> Inr (concat results))"

text \<open>
  Modelled from the spec: the Batch Executor \<^verbatim>\<open>batch_task_async\<close>, which is not among the
  sources. The spec: the subjects are worked on with at most \<open>batch_size\<close> units in flight;
  the output is the sequence of per-subject results in the order of the subjects; the
  first failure is propagated once results are collected; the shared target is passed
  through unchanged. Here the subjects are taken in consecutive batches of at most
  \<open>batch_size\<close>. The spec gives no result for a bound below 1: the model fails there.
\<close>

fun collect :: "(py_error + 'a) list \<Rightarrow> py_error + 'a list" where
  "collect [] = Inr []"
| "collect (Inl e # rs) = Inl e"
| "collect (Inr v # rs) = (case collect rs of Inl e \<Rightarrow> Inl e | Inr vs \<Rightarrow> Inr (v # vs))"

function batches :: "nat \<Rightarrow> 'a list \<Rightarrow> 'a list list" where
  "batches n xs = (if n = 0 \<or> xs = [] then [] else take n xs # batches n (drop n xs))"
  by pat_completeness auto
termination
  by (relation "measure (\<lambda>(n, xs). length xs)") auto

declare batches.simps [simp del]

fun run_batches :: "('p \<Rightarrow> py_error + 'r) \<Rightarrow> 'p list list \<Rightarrow> py_error + 'r list" where
  "run_batches task_fn [] = Inr []"
| "run_batches task_fn (b # bs) =
     (case collect (map task_fn b) of
        Inl e \<Rightarrow> Inl e
      | Inr rs \<Rightarrow> (case run_batches task_fn bs of Inl e \<Rightarrow> Inl e | Inr rest \<Rightarrow> Inr (rs @ rest)))"

definition batch_task_async ::
  "('p \<Rightarrow> py_error + 'r) \<Rightarrow> 't option \<Rightarrow> int \<Rightarrow> 'p list \<Rightarrow> py_error + 'r list" where
  "batch_task_async task_fn prompt_target batch_size items_to_batch =
     (if batch_size < 1 then Inl (ValueError ''batch_size'')
      else run_batches task_fn (batches (nat batch_size) items_to_batch))"

section \<open>Example inputs\<close>

text \<open>
  A decoder for the examples: it agrees with \<^verbatim>\<open>json.loads\<close> on the texts of the table and
  on \<^verbatim>\<open>not json\<close>, on which \<^verbatim>\<open>json.loads\<close> raises \<^verbatim>\<open>JSONDecodeError\<close>. The last text of the
  table is no JSON text, since \<^verbatim>\<open>NaN\<close> is no JSON value; \<^verbatim>\<open>json.loads\<close>, called with its
  defaults as line 165 does, decodes \<^verbatim>\<open>NaN\<close>, \<^verbatim>\<open>Infinity\<close> and \<^verbatim>\<open>-Infinity\<close> to floats all the
  same.
\<close>

definition example_table :: "(string \<times> pyval) list" where
  \<open>example_table =
     [(''{"score_value": "inf", "rationale": "x"}'',
         PDict [(''score_value'', PStr ''inf''), (''rationale'', PStr ''x'')]),
      (''{"score_value": "0.8", "rationale": "y"}'',
         PDict [(''score_value'', PStr ''0.8''), (''rationale'', PStr ''y'')]),
      (''{"score_value": "high", "rationale": "y"}'',
         PDict [(''score_value'', PStr ''high''), (''rationale'', PStr ''y'')]),
      (''{"score_value": "true", "rationale": ""}'',
         PDict [(''score_value'', PStr ''true''), (''rationale'', PStr [])]),
      (''{"category": "other", "score_value": "true", "rationale": "x"}'',
         PDict [(''category'', PStr ''other''), (''score_value'', PStr ''true''),
                (''rationale'', PStr ''x'')]),
      (''{"category": "other"}'', PDict [(''category'', PStr ''other'')]),
      (''{"rationale": "x"}'', PDict [(''rationale'', PStr ''x'')]),
      (''[1, 2]'', PList [PInt 1, PInt 2]),
      (''{"score_value": NaN, "rationale": "x"}'',
         PDict [(''score_value'', PFloat ''nan''), (''rationale'', PStr ''x'')])]\<close>

definition example_loads :: "string \<Rightarrow> pyval option" where
  "example_loads s = map_of example_table s"

text \<open>A judge that gives the answers of a script, one at each call.\<close>

fun scripted ::
  "unit \<Rightarrow> (py_error + prompt_request_response) list \<Rightarrow>
     (py_error + prompt_request_response) \<times> (py_error + prompt_request_response) list" where
  "scripted rq [] = (Inl (OtherError ''no answer''), [])"
| "scripted rq (x # xs) = (x, xs)"

definition answer :: "string \<Rightarrow> prompt_request_response" where
  "answer txt = \<lparr> request_pieces = [\<lparr> converted_value = txt \<rparr>] \<rparr>"

definition example_scorer :: "score_type \<Rightarrow> unit scorer" where
  "example_scorer ty =
     \<lparr> scorer_class = \<lparr> class_name = ''ExampleScorer'', class_module = ''example.scorers'' \<rparr>,
       scorer_type = ty, prompt_target_attr = None \<rparr>"

definition example_identifier :: "(string \<times> string option) list" where
  "example_identifier =
     [(''__type__'', Some ''ExampleScorer''), (''__module__'', Some ''example.scorers''),
      (''sub_identifier'', None)]"

text \<open>An executor that does no work and reports the bound and the target it was given.\<close>

definition recording_executor ::
  "('p \<Rightarrow> py_error + (int \<times> 't option) list) \<Rightarrow> 't option \<Rightarrow> int \<Rightarrow> 'p list \<Rightarrow>
     py_error + (int \<times> 't option) list list" where
  "recording_executor task_fn prompt_target batch_size items_to_batch =
     Inr [[(batch_size, prompt_target)]]"

section \<open>Lemmas about the steps of the methods\<close>

lemma score_response_first_piece:
  "request_pieces response = piece # rest \<Longrightarrow>
   score_response loads self response sid category t =
     (case first_try loads self (converted_value piece) sid category t of
        Inl e \<Rightarrow> Inl (first_except (converted_value piece) e)
      | Inr score \<Rightarrow>
          (case second_try self score of
             Inl e \<Rightarrow> Inl (second_except score e)
           | Inr u \<Rightarrow> Inr score))"
  by (simp add: score_response_def Let_def)

lemma retry_from_fatal:
  "f s = (Inl e, s') \<Longrightarrow> \<not> recoverable e \<Longrightarrow> retry_from n made f s = (Inl e, Suc made, s')"
  by (cases n) simp_all

lemma retry_from_success:
  "f s = (Inr v, s') \<Longrightarrow> retry_from n made f s = (Inr v, Suc made, s')"
  by (cases n) simp_all

lemma first_try_conflict:
  "loads txt = Some (PDict d) \<Longrightarrow> truthy (dict_get d ''category'') \<Longrightarrow>
   truthy (opt_str category) \<Longrightarrow>
   first_try loads self txt sid category t =
     Inl (ValueError ''Category is present in the response and an argument'')"
  by (simp add: first_try_def)

lemma first_try_not_dict:
  "loads txt = Some v \<Longrightarrow> \<not> is_dict v \<Longrightarrow>
   first_try loads self txt sid category t =
     Inl (AttributeError (quoted (type_name v) @ '' object has no attribute '' @ quoted ''get''))"
  by (cases v) (simp_all add: first_try_def)

lemma first_try_dict:
  assumes "loads txt = Some (PDict d)"
    and "\<not> (truthy (dict_get d ''category'') \<and> truthy (opt_str category))"
  shows "first_try loads self txt sid category t =
     (case map_of d ''score_value'' of
        None \<Rightarrow> Inl (KeyError ''score_value'')
      | Some sv \<Rightarrow>
          (case map_of d ''rationale'' of
             None \<Rightarrow> Inl (KeyError ''rationale'')
           | Some r \<Rightarrow>
               Inr \<lparr> raw_score_value = py_str sv,
                     score_value_description = dict_get d ''description'',
                     score_type = scorer_type self,
                     score_category =
                       (if truthy (dict_get d ''category'') then dict_get d ''category''
                        else opt_str category),
                     score_rationale = r,
                     scorer_class_identifier = get_identifier self,
                     score_metadata = dict_get d ''metadata'',
                     prompt_request_response_id = sid,
                     task = t \<rparr>))"
  using assms by (simp add: first_try_def dict_item_def Let_def split: option.splits)

lemma first_try_Inr:
  assumes "first_try loads self js sid category t = Inr score"
  shows "\<exists>d. loads js = Some (PDict d) \<and> map_of d ''rationale'' = Some (score_rationale score)"
proof (cases "loads js")
  case None
  with assms show ?thesis by (simp add: first_try_def)
next
  case (Some v)
  show ?thesis
  proof (cases "is_dict v")
    case False
    with Some assms show ?thesis by (simp add: first_try_not_dict)
  next
    case True
    then obtain d where v: "v = PDict d" by (cases v) simp_all
    show ?thesis
    proof (cases "truthy (dict_get d ''category'') \<and> truthy (opt_str category)")
      case True
      with Some v assms show ?thesis by (simp add: first_try_conflict)
    next
      case False
      from assms first_try_dict [of loads js d category self sid t] Some v False
      show ?thesis
        by (auto split: option.splits)
    qed
  qed
qed

lemma second_step_float_scale:
  "scorer_type self = float_scale \<Longrightarrow>
   (case second_try self score of Inl e \<Rightarrow> Inl (second_except score e) | Inr u \<Rightarrow> Inr score) =
     (if float_syntax (raw_score_value score) = None
      then Inl (InvalidJsonException
                  (''Invalid JSON response, score_value should be a float not this: ''
                     @ raw_score_value score))
      else Inr score)"
  by (simp add: second_try_def second_except_def py_float_def split: option.splits)

lemma second_step_other:
  "scorer_type self \<noteq> float_scale \<Longrightarrow>
   (case second_try self score of Inl e \<Rightarrow> Inl (second_except score e) | Inr u \<Rightarrow> Inr score) =
     Inr score"
  by (simp add: second_try_def)

lemma score_response_Inr:
  assumes "score_response loads self response sid category t = Inr score"
  shows "\<exists>piece rest d. request_pieces response = piece # rest \<and>
           loads (converted_value piece) = Some (PDict d) \<and>
           map_of d ''rationale'' = Some (score_rationale score)"
proof (cases "request_pieces response")
  case Nil
  with assms show ?thesis by (simp add: score_response_def)
next
  case (Cons piece rest)
  with assms have "first_try loads self (converted_value piece) sid category t = Inr score"
    by (simp add: score_response_first_piece split: sum.splits)
  from first_try_Inr [OF this] Cons show ?thesis by simp
qed

lemma float_syntax_examples:
  "float_syntax ''0.8'' = Some Decimal" "float_syntax ''inf'' = Some Infinity"
  "float_syntax ''nan'' = Some NaN" "float_syntax ''high'' = None"
  by (simp_all add: float_syntax_def strip_def is_space_def unsign_def lower_char_def
      number_def is_digit_def exponent_ok_def)

lemma collect_Inr: "collect (map Inr rs) = Inr rs"
  by (induction rs) simp_all

lemma collect_append:
  "collect (xs @ ys) =
     (case collect xs of
        Inl e \<Rightarrow> Inl e
      | Inr a \<Rightarrow> (case collect ys of Inl e \<Rightarrow> Inl e | Inr b \<Rightarrow> Inr (a @ b)))"
  by (induction xs rule: collect.induct) (simp_all split: sum.splits)

lemma run_batches_collect:
  "0 < n \<Longrightarrow> run_batches f (batches n xs) = collect (map f xs)"
proof (induction n xs rule: batches.induct)
  case (1 n xs)
  show ?case
  proof (cases "xs = []")
    case True
    then show ?thesis by (simp add: batches.simps)
  next
    case False
    with "1.prems" have unfold: "batches n xs = take n xs # batches n (drop n xs)"
      by (subst batches.simps) simp
    from False "1.prems" "1.IH" have ih:
      "run_batches f (batches n (drop n xs)) = collect (map f (drop n xs))"
      by simp
    have "collect (map f xs) = collect (map f (take n xs) @ map f (drop n xs))"
      by (simp flip: map_append)
    then show ?thesis
      by (simp only: unfold run_batches.simps ih collect_append)
  qed
qed

section \<open>The claims\<close>

text \<open>
  Claim C1. When the caller passes a non-empty \<^verbatim>\<open>category\<close> and the answer of the judge
  decodes to an object whose \<^verbatim>\<open>category\<close> is non-empty too (true in Python's sense), the
  call raises the \<^verbatim>\<open>ValueError\<close> of line 170, which is what the spec names
  \<^verbatim>\<open>AmbiguousCategory\<close>. No \<^verbatim>\<open>UnvalidatedScore\<close> is built, the failure is not recoverable,
  and the call has made one attempt, whatever the maximum: no retry is consumed.
\<close>

theorem ambiguous_category_fatal:
  assumes "send_prompt_async rq s = (Inr response, s')"
    and "request_pieces response = piece # rest"
    and "loads (converted_value piece) = Some (PDict d)"
    and "truthy (dict_get d ''category'')"
    and "category = Some c" and "c \<noteq> []"
  shows "send_chat_target_async max_attempts loads self send_prompt_async rq sid category t s =
           (Inl (ValueError ''Category is present in the response and an argument''), 1, s') \<and>
         \<not> recoverable (ValueError ''Category is present in the response and an argument'')"
proof -
  let ?e = "ValueError ''Category is present in the response and an argument''"
  have "first_try loads self (converted_value piece) sid category t = Inl ?e"
    using assms by (simp add: first_try_conflict)
  then have "score_response loads self response sid category t = Inl ?e"
    using assms(2) by (simp add: score_response_first_piece first_except_def)
  then have "send_chat_target_body loads self send_prompt_async rq sid category t s = (Inl ?e, s')"
    using assms(1) by (simp add: send_chat_target_body_def)
  then show ?thesis
    by (simp add: send_chat_target_async_def pyrit_json_retry_def retry_from_fatal)
qed

theorem ambiguous_category_fatal_witness:
  \<open>scripted ()
       [Inr (answer ''{"category": "other", "score_value": "true", "rationale": "x"}''),
        Inr (answer ''not json'')] =
     (Inr (answer ''{"category": "other", "score_value": "true", "rationale": "x"}''),
      [Inr (answer ''not json'')]) \<and>
   example_loads ''{"category": "other", "score_value": "true", "rationale": "x"}'' =
     Some (PDict [(''category'', PStr ''other''), (''score_value'', PStr ''true''),
                  (''rationale'', PStr ''x'')]) \<and>
   truthy (dict_get [(''category'', PStr ''other''), (''score_value'', PStr ''true''),
                     (''rationale'', PStr ''x'')] ''category'') \<and>
   send_chat_target_async 3 example_loads (example_scorer true_false) scripted () ''id''
       (Some ''harm'') None
       [Inr (answer ''{"category": "other", "score_value": "true", "rationale": "x"}''),
        Inr (answer ''not json'')] =
     (Inl (ValueError ''Category is present in the response and an argument''), 1,
      [Inr (answer ''not json'')])\<close>
proof -
  let ?txt = \<open>''{"category": "other", "score_value": "true", "rationale": "x"}''\<close>
  let ?d = "[(''category'', PStr ''other''), (''score_value'', PStr ''true''),
             (''rationale'', PStr ''x'')]"
  have a: "scripted () [Inr (answer ?txt), Inr (answer ''not json'')] =
             (Inr (answer ?txt), [Inr (answer ''not json'')])"
    by simp
  have b: "request_pieces (answer ?txt) = \<lparr> converted_value = ?txt \<rparr> # []"
    by (simp add: answer_def)
  have c: "example_loads (converted_value \<lparr> converted_value = ?txt \<rparr>) = Some (PDict ?d)"
    by (simp add: example_loads_def example_table_def)
  have d: "truthy (dict_get ?d ''category'')"
    by (simp add: dict_get_def)
  have e: "''harm'' \<noteq> []"
    by simp
  show ?thesis
    using ambiguous_category_fatal
        [where send_prompt_async = scripted and loads = example_loads and max_attempts = 3
           and self = "example_scorer true_false" and sid = "''id''" and t = None,
         OF a b c d refl e]
      a c d by simp
qed

text \<open>
  Claim C2 says that a \<^verbatim>\<open>float_scale\<close> scorer rejects every \<^verbatim>\<open>score_value\<close> that is not a
  finite real number, \<^verbatim>\<open>inf\<close> and \<^verbatim>\<open>nan\<close> among them. The source only calls \<^verbatim>\<open>float\<close> on the
  text (line 195), and \<^verbatim>\<open>float("inf")\<close> succeeds: the score is returned.
\<close>

theorem float_scale_inf_counterexample:
  \<open>float_syntax ''inf'' \<noteq> Some Decimal \<and>
   send_chat_target_body example_loads (example_scorer float_scale) scripted () ''id'' None None
       [Inr (answer ''{"score_value": "inf", "rationale": "x"}'')] =
     (Inr \<lparr> raw_score_value = ''inf'', score_value_description = PNone,
            score_type = float_scale, score_category = PNone, score_rationale = PStr ''x'',
            scorer_class_identifier = example_identifier, score_metadata = PNone,
            prompt_request_response_id = ''id'', task = None \<rparr>, [])\<close>
proof -
  have d: \<open>example_loads ''{"score_value": "inf", "rationale": "x"}'' =
            Some (PDict [(''score_value'', PStr ''inf''), (''rationale'', PStr ''x'')])\<close>
    by (simp add: example_loads_def example_table_def)
  show ?thesis
    by (simp add: send_chat_target_body_def score_response_def answer_def first_try_def d
        dict_get_def dict_item_def second_try_def py_float_def float_syntax_examples
        example_scorer_def get_identifier_def example_identifier_def)
qed

text \<open>
  Claim C2, amended. For a \<^verbatim>\<open>float_scale\<close> scorer and an answer that decodes to an object
  with \<^verbatim>\<open>score_value\<close> and \<^verbatim>\<open>rationale\<close>, without a category on both sides, the call
  raises \<^verbatim>\<open>InvalidJsonException\<close> with the message of line 198 exactly when \<^verbatim>\<open>float\<close>
  rejects \<^verbatim>\<open>str(score_value)\<close>; otherwise it returns the \<^verbatim>\<open>UnvalidatedScore\<close>. \<^verbatim>\<open>float\<close>
  accepts the tokens \<^verbatim>\<open>inf\<close> and \<^verbatim>\<open>nan\<close>.
\<close>

theorem float_scale_accepts_what_float_accepts:
  assumes "scorer_type self = float_scale"
    and "send_prompt_async rq s = (Inr response, s')"
    and "request_pieces response = piece # rest"
    and "loads (converted_value piece) = Some (PDict d)"
    and "map_of d ''score_value'' = Some sv"
    and "map_of d ''rationale'' = Some r"
    and "\<not> (truthy (dict_get d ''category'') \<and> truthy (opt_str category))"
  shows "send_chat_target_body loads self send_prompt_async rq sid category t s =
     (if float_syntax (py_str sv) = None
      then Inl (InvalidJsonException
                  (''Invalid JSON response, score_value should be a float not this: ''
                     @ py_str sv))
      else Inr \<lparr> raw_score_value = py_str sv,
                 score_value_description = dict_get d ''description'',
                 score_type = float_scale,
                 score_category =
                   (if truthy (dict_get d ''category'') then dict_get d ''category''
                    else opt_str category),
                 score_rationale = r,
                 scorer_class_identifier = get_identifier self,
                 score_metadata = dict_get d ''metadata'',
                 prompt_request_response_id = sid,
                 task = t \<rparr>, s') \<and>
     float_syntax ''inf'' = Some Infinity \<and> float_syntax ''nan'' = Some NaN"
proof -
  have "score_response loads self response sid category t =
     (if float_syntax (py_str sv) = None
      then Inl (InvalidJsonException
                  (''Invalid JSON response, score_value should be a float not this: ''
                     @ py_str sv))
      else Inr \<lparr> raw_score_value = py_str sv,
                 score_value_description = dict_get d ''description'',
                 score_type = float_scale,
                 score_category =
                   (if truthy (dict_get d ''category'') then dict_get d ''category''
                    else opt_str category),
                 score_rationale = r,
                 scorer_class_identifier = get_identifier self,
                 score_metadata = dict_get d ''metadata'',
                 prompt_request_response_id = sid,
                 task = t \<rparr>)"
    using assms
    by (simp add: score_response_first_piece first_try_dict [of loads "converted_value piece" d]
        second_step_float_scale)
  then show ?thesis
    using assms(2) by (simp add: send_chat_target_body_def float_syntax_examples)
qed

theorem float_scale_accepts_what_float_accepts_witness:
  \<open>scorer_type (example_scorer float_scale) = float_scale \<and>
   example_loads ''{"score_value": "high", "rationale": "y"}'' =
     Some (PDict [(''score_value'', PStr ''high''), (''rationale'', PStr ''y'')]) \<and>
   float_syntax (py_str (PStr ''high'')) = None \<and>
   send_chat_target_body example_loads (example_scorer float_scale) scripted () ''id'' None None
       [Inr (answer ''{"score_value": "high", "rationale": "y"}'')] =
     (Inl (InvalidJsonException
             ''Invalid JSON response, score_value should be a float not this: high''), []) \<and>
   example_loads ''{"score_value": "0.8", "rationale": "y"}'' =
     Some (PDict [(''score_value'', PStr ''0.8''), (''rationale'', PStr ''y'')]) \<and>
   float_syntax (py_str (PStr ''0.8'')) = Some Decimal \<and>
   send_chat_target_body example_loads (example_scorer float_scale) scripted () ''id'' None None
       [Inr (answer ''{"score_value": "0.8", "rationale": "y"}'')] =
     (Inr \<lparr> raw_score_value = ''0.8'', score_value_description = PNone,
            score_type = float_scale, score_category = PNone, score_rationale = PStr ''y'',
            scorer_class_identifier = example_identifier, score_metadata = PNone,
            prompt_request_response_id = ''id'', task = None \<rparr>, [])\<close>
proof -
  let ?bad = \<open>''{"score_value": "high", "rationale": "y"}''\<close>
  let ?ok = \<open>''{"score_value": "0.8", "rationale": "y"}''\<close>
  let ?dbad = "[(''score_value'', PStr ''high''), (''rationale'', PStr ''y'')]"
  let ?dok = "[(''score_value'', PStr ''0.8''), (''rationale'', PStr ''y'')]"
  have ty: "scorer_type (example_scorer float_scale) = float_scale"
    by (simp add: example_scorer_def)
  have a1: "scripted () [Inr (answer ?bad)] = (Inr (answer ?bad), [])"
    by simp
  have a2: "scripted () [Inr (answer ?ok)] = (Inr (answer ?ok), [])"
    by simp
  have b1: "request_pieces (answer ?bad) = \<lparr> converted_value = ?bad \<rparr> # []"
    by (simp add: answer_def)
  have b2: "request_pieces (answer ?ok) = \<lparr> converted_value = ?ok \<rparr> # []"
    by (simp add: answer_def)
  have c1: "example_loads (converted_value \<lparr> converted_value = ?bad \<rparr>) = Some (PDict ?dbad)"
    by (simp add: example_loads_def example_table_def)
  have c2: "example_loads (converted_value \<lparr> converted_value = ?ok \<rparr>) = Some (PDict ?dok)"
    by (simp add: example_loads_def example_table_def)
  have n1: "\<not> (truthy (dict_get ?dbad ''category'') \<and> truthy (opt_str None))"
    by simp
  have n2: "\<not> (truthy (dict_get ?dok ''category'') \<and> truthy (opt_str None))"
    by simp
  have bad: "send_chat_target_body example_loads (example_scorer float_scale) scripted () ''id''
               None None [Inr (answer ?bad)] =
             (Inl (InvalidJsonException
                     ''Invalid JSON response, score_value should be a float not this: high''), [])"
    using float_scale_accepts_what_float_accepts
        [where send_prompt_async = scripted and loads = example_loads and sid = "''id''"
           and t = None and sv = "PStr ''high''" and r = "PStr ''y''",
         OF ty a1 b1 c1 _ _ n1]
    by (simp add: float_syntax_examples)
  have ok: "send_chat_target_body example_loads (example_scorer float_scale) scripted () ''id''
               None None [Inr (answer ?ok)] =
     (Inr \<lparr> raw_score_value = ''0.8'', score_value_description = PNone,
            score_type = float_scale, score_category = PNone, score_rationale = PStr ''y'',
            scorer_class_identifier = example_identifier, score_metadata = PNone,
            prompt_request_response_id = ''id'', task = None \<rparr>, [])"
    using float_scale_accepts_what_float_accepts
        [where send_prompt_async = scripted and loads = example_loads and sid = "''id''"
           and t = None and sv = "PStr ''0.8''" and r = "PStr ''y''",
         OF ty a2 b2 c2 _ _ n2]
    by (simp add: float_syntax_examples dict_get_def example_scorer_def get_identifier_def
        example_identifier_def)
  show ?thesis
    using ty bad ok c1 c2 by (simp add: float_syntax_examples)
qed

text \<open>
  Claim C3 says that every text that is not syntactically valid JSON makes the call
  raise \<^verbatim>\<open>InvalidResponseFormat\<close>. Line 165 calls \<^verbatim>\<open>json.loads\<close> with its defaults, which
  decode the literal \<^verbatim>\<open>NaN\<close> although it is no JSON value: on such a text nothing is raised,
  and a \<^verbatim>\<open>float_scale\<close> scorer returns the score at the first attempt.
\<close>

theorem nan_literal_counterexample:
  \<open>example_loads ''{"score_value": NaN, "rationale": "x"}'' =
     Some (PDict [(''score_value'', PFloat ''nan''), (''rationale'', PStr ''x'')]) \<and>
   send_chat_target_body example_loads (example_scorer float_scale) scripted () ''id'' None None
       [Inr (answer ''{"score_value": NaN, "rationale": "x"}'')] =
     (Inr \<lparr> raw_score_value = ''nan'', score_value_description = PNone,
            score_type = float_scale, score_category = PNone, score_rationale = PStr ''x'',
            scorer_class_identifier = example_identifier, score_metadata = PNone,
            prompt_request_response_id = ''id'', task = None \<rparr>, []) \<and>
   send_chat_target_async 3 example_loads (example_scorer float_scale) scripted () ''id'' None
       None [Inr (answer ''{"score_value": NaN, "rationale": "x"}'')] =
     (Inr \<lparr> raw_score_value = ''nan'', score_value_description = PNone,
            score_type = float_scale, score_category = PNone, score_rationale = PStr ''x'',
            scorer_class_identifier = example_identifier, score_metadata = PNone,
            prompt_request_response_id = ''id'', task = None \<rparr>, 1, [])\<close>
proof -
  have d: \<open>example_loads ''{"score_value": NaN, "rationale": "x"}'' =
            Some (PDict [(''score_value'', PFloat ''nan''), (''rationale'', PStr ''x'')])\<close>
    by (simp add: example_loads_def example_table_def)
  have body:
    \<open>send_chat_target_body example_loads (example_scorer float_scale) scripted () ''id'' None None
       [Inr (answer ''{"score_value": NaN, "rationale": "x"}'')] =
     (Inr \<lparr> raw_score_value = ''nan'', score_value_description = PNone,
            score_type = float_scale, score_category = PNone, score_rationale = PStr ''x'',
            scorer_class_identifier = example_identifier, score_metadata = PNone,
            prompt_request_response_id = ''id'', task = None \<rparr>, [])\<close>
    by (simp add: send_chat_target_body_def score_response_def answer_def first_try_def d
        dict_get_def dict_item_def second_try_def py_float_def float_syntax_examples
        example_scorer_def get_identifier_def example_identifier_def)
  from d body show ?thesis
    by (simp add: send_chat_target_async_def pyrit_json_retry_def retry_from_success)
qed

text \<open>
  Claim C3, amended. When \<^verbatim>\<open>json.loads\<close> raises \<^verbatim>\<open>JSONDecodeError\<close> on the text of the first
  piece of the answer, the call raises \<^verbatim>\<open>InvalidJsonException\<close> (the spec's
  \<^verbatim>\<open>InvalidResponseFormat\<close>) with the message of line 187, which ends with the raw text. The
  failure is recoverable: with a budget of at least two attempts the call goes on to a
  further attempt, with a budget of one it surfaces this failure.
\<close>

theorem invalid_json_recoverable:
  assumes "send_prompt_async rq s = (Inr response, s')"
    and "request_pieces response = piece # rest"
    and "loads (converted_value piece) = None"
  shows "send_chat_target_body loads self send_prompt_async rq sid category t s =
           (Inl (InvalidJsonException (''Invalid JSON response: '' @ converted_value piece)), s') \<and>
         sublist (converted_value piece) (''Invalid JSON response: '' @ converted_value piece) \<and>
         recoverable (InvalidJsonException (''Invalid JSON response: '' @ converted_value piece)) \<and>
         send_chat_target_async (Suc (Suc n)) loads self send_prompt_async rq sid category t s =
           retry_from n 1
             (send_chat_target_body loads self send_prompt_async rq sid category t) s' \<and>
         send_chat_target_async 1 loads self send_prompt_async rq sid category t s =
           (Inl (InvalidJsonException (''Invalid JSON response: '' @ converted_value piece)), 1, s')"
proof -
  let ?e = "InvalidJsonException (''Invalid JSON response: '' @ converted_value piece)"
  have "first_try loads self (converted_value piece) sid category t = Inl JSONDecodeError"
    using assms(3) by (simp add: first_try_def)
  then have "score_response loads self response sid category t = Inl ?e"
    using assms(2) by (simp add: score_response_first_piece first_except_def)
  then have body:
    "send_chat_target_body loads self send_prompt_async rq sid category t s = (Inl ?e, s')"
    using assms(1) by (simp add: send_chat_target_body_def)
  have sub: "sublist (converted_value piece) (''Invalid JSON response: '' @ converted_value piece)"
    by (rule suffix_imp_sublist) (rule suffix_appendI, rule suffix_order.refl)
  from body sub show ?thesis
    by (simp add: send_chat_target_async_def pyrit_json_retry_def)
qed

theorem invalid_json_recoverable_witness:
  \<open>scripted () [Inr (answer ''not json''),
                 Inr (answer ''{"score_value": "0.8", "rationale": "y"}'')] =
     (Inr (answer ''not json''), [Inr (answer ''{"score_value": "0.8", "rationale": "y"}'')]) \<and>
   example_loads ''not json'' = None \<and>
   send_chat_target_body example_loads (example_scorer float_scale) scripted () ''id'' None None
       [Inr (answer ''not json''), Inr (answer ''{"score_value": "0.8", "rationale": "y"}'')] =
     (Inl (InvalidJsonException ''Invalid JSON response: not json''),
      [Inr (answer ''{"score_value": "0.8", "rationale": "y"}'')]) \<and>
   sublist ''not json'' ''Invalid JSON response: not json'' \<and>
   send_chat_target_async 1 example_loads (example_scorer float_scale) scripted () ''id'' None None
       [Inr (answer ''not json''), Inr (answer ''{"score_value": "0.8", "rationale": "y"}'')] =
     (Inl (InvalidJsonException ''Invalid JSON response: not json''), 1,
      [Inr (answer ''{"score_value": "0.8", "rationale": "y"}'')]) \<and>
   send_chat_target_async 2 example_loads (example_scorer float_scale) scripted () ''id'' None None
       [Inr (answer ''not json''), Inr (answer ''{"score_value": "0.8", "rationale": "y"}'')] =
     (Inr \<lparr> raw_score_value = ''0.8'', score_value_description = PNone,
            score_type = float_scale, score_category = PNone, score_rationale = PStr ''y'',
            scorer_class_identifier = example_identifier, score_metadata = PNone,
            prompt_request_response_id = ''id'', task = None \<rparr>, 2, [])\<close>
proof -
  let ?ok = \<open>''{"score_value": "0.8", "rationale": "y"}''\<close>
  have a: "scripted () [Inr (answer ''not json''), Inr (answer ?ok)] =
             (Inr (answer ''not json''), [Inr (answer ?ok)])"
    by simp
  have b: "request_pieces (answer ''not json'') = \<lparr> converted_value = ''not json'' \<rparr> # []"
    by (simp add: answer_def)
  have c: "example_loads (converted_value \<lparr> converted_value = ''not json'' \<rparr>) = None"
    by (simp add: example_loads_def example_table_def)
  have d: "example_loads ?ok = Some (PDict [(''score_value'', PStr ''0.8''), (''rationale'', PStr ''y'')])"
    by (simp add: example_loads_def example_table_def)
  have again:
    "send_chat_target_body example_loads (example_scorer float_scale) scripted () ''id'' None None
       [Inr (answer ?ok)] =
     (Inr \<lparr> raw_score_value = ''0.8'', score_value_description = PNone,
            score_type = float_scale, score_category = PNone, score_rationale = PStr ''y'',
            scorer_class_identifier = example_identifier, score_metadata = PNone,
            prompt_request_response_id = ''id'', task = None \<rparr>, [])"
    by (simp add: send_chat_target_body_def score_response_def answer_def first_try_def d
        dict_get_def dict_item_def second_try_def py_float_def float_syntax_examples
        example_scorer_def get_identifier_def example_identifier_def)
  show ?thesis
    using invalid_json_recoverable
        [where send_prompt_async = scripted and loads = example_loads
           and self = "example_scorer float_scale" and sid = "''id''" and category = None
           and t = None and n = 0,
         OF a b c]
      a c again by (simp add: numeral_2_eq_2)
qed

text \<open>
  Claim C4 says that every answer that decodes to an object without \<^verbatim>\<open>score_value\<close> or
  without \<^verbatim>\<open>rationale\<close> raises the missing-key failure. The category check of lines 169
  and 170 comes first: with a category from the caller and one in the answer, the
  \<^verbatim>\<open>ValueError\<close> is raised although both keys are missing.
\<close>

theorem missing_key_counterexample:
  \<open>example_loads ''{"category": "other"}'' = Some (PDict [(''category'', PStr ''other'')]) \<and>
   map_of [(''category'', PStr ''other'')] ''score_value'' = None \<and>
   send_chat_target_body example_loads (example_scorer true_false) scripted () ''id''
       (Some ''harm'') None [Inr (answer ''{"category": "other"}'')] =
     (Inl (ValueError ''Category is present in the response and an argument''), [])\<close>
proof -
  have d: \<open>example_loads ''{"category": "other"}'' = Some (PDict [(''category'', PStr ''other'')])\<close>
    by (simp add: example_loads_def example_table_def)
  show ?thesis
    by (simp add: send_chat_target_body_def score_response_def answer_def first_try_def d
        dict_get_def first_except_def)
qed

text \<open>
  Claim C4, amended. For an answer that decodes to an object, without a category on both
  sides: if \<^verbatim>\<open>score_value\<close> or \<^verbatim>\<open>rationale\<close> is missing, the call raises
  \<^verbatim>\<open>InvalidJsonException\<close> with the message of line 190, which ends with the raw text; if
  both are there and \<^verbatim>\<open>category\<close>, \<^verbatim>\<open>description\<close> and \<^verbatim>\<open>metadata\<close> are all missing, the
  call returns a score (for \<^verbatim>\<open>float_scale\<close>, when \<^verbatim>\<open>float\<close> accepts the value) whose
  description and metadata are \<^verbatim>\<open>None\<close> and whose category is the caller's.
\<close>

theorem missing_key_after_category_check:
  assumes "send_prompt_async rq s = (Inr response, s')"
    and "request_pieces response = piece # rest"
    and "loads (converted_value piece) = Some (PDict d)"
    and "\<not> (truthy (dict_get d ''category'') \<and> truthy (opt_str category))"
  shows "(map_of d ''score_value'' = None \<or> map_of d ''rationale'' = None \<longrightarrow>
            send_chat_target_body loads self send_prompt_async rq sid category t s =
              (Inl (InvalidJsonException
                      (''Invalid JSON response, missing Key: '' @ converted_value piece)), s') \<and>
            sublist (converted_value piece)
              (''Invalid JSON response, missing Key: '' @ converted_value piece)) \<and>
         (map_of d ''score_value'' = Some sv \<and> map_of d ''rationale'' = Some r \<and>
          map_of d ''category'' = None \<and> map_of d ''description'' = None \<and>
          map_of d ''metadata'' = None \<and>
          (scorer_type self = float_scale \<longrightarrow> float_syntax (py_str sv) \<noteq> None) \<longrightarrow>
            send_chat_target_body loads self send_prompt_async rq sid category t s =
              (Inr \<lparr> raw_score_value = py_str sv,
                     score_value_description = PNone,
                     score_type = scorer_type self,
                     score_category = opt_str category,
                     score_rationale = r,
                     scorer_class_identifier = get_identifier self,
                     score_metadata = PNone,
                     prompt_request_response_id = sid,
                     task = t \<rparr>, s'))"
proof -
  note ft = first_try_dict [of loads "converted_value piece" d category self sid t, OF assms(3,4)]
  have body: "send_chat_target_body loads self send_prompt_async rq sid category t s =
                (score_response loads self response sid category t, s')"
    using assms(1) by (simp add: send_chat_target_body_def)
  have sub: "sublist (converted_value piece)
               (''Invalid JSON response, missing Key: '' @ converted_value piece)"
    by (rule suffix_imp_sublist) (rule suffix_appendI, rule suffix_order.refl)
  have missing: "score_response loads self response sid category t =
      Inl (InvalidJsonException (''Invalid JSON response, missing Key: '' @ converted_value piece))"
    if "map_of d ''score_value'' = None \<or> map_of d ''rationale'' = None"
    using that assms(2)
    by (auto simp add: score_response_first_piece ft first_except_def split: option.splits)
  have present: "score_response loads self response sid category t =
      Inr \<lparr> raw_score_value = py_str sv, score_value_description = PNone,
            score_type = scorer_type self, score_category = opt_str category,
            score_rationale = r, scorer_class_identifier = get_identifier self,
            score_metadata = PNone, prompt_request_response_id = sid, task = t \<rparr>"
    if "map_of d ''score_value'' = Some sv" "map_of d ''rationale'' = Some r"
      "map_of d ''category'' = None" "map_of d ''description'' = None"
      "map_of d ''metadata'' = None"
      "scorer_type self = float_scale \<longrightarrow> float_syntax (py_str sv) \<noteq> None"
  proof (cases "scorer_type self = float_scale")
    case True
    with that assms(2) show ?thesis
      by (simp add: score_response_first_piece ft second_step_float_scale dict_get_def)
  next
    case False
    with that assms(2) show ?thesis
      by (simp add: score_response_first_piece ft second_step_other dict_get_def)
  qed
  from body sub missing present show ?thesis
    by simp
qed

theorem missing_key_after_category_check_witness:
  \<open>example_loads ''{"rationale": "x"}'' = Some (PDict [(''rationale'', PStr ''x'')]) \<and>
   map_of [(''rationale'', PStr ''x'')] ''score_value'' = None \<and>
   send_chat_target_body example_loads (example_scorer true_false) scripted () ''id''
       (Some ''harm'') None [Inr (answer ''{"rationale": "x"}'')] =
     (Inl (InvalidJsonException ''Invalid JSON response, missing Key: {"rationale": "x"}''), []) \<and>
   sublist ''{"rationale": "x"}'' ''Invalid JSON response, missing Key: {"rationale": "x"}'' \<and>
   example_loads ''{"score_value": "0.8", "rationale": "y"}'' =
     Some (PDict [(''score_value'', PStr ''0.8''), (''rationale'', PStr ''y'')]) \<and>
   send_chat_target_body example_loads (example_scorer float_scale) scripted () ''id''
       (Some ''harm'') None [Inr (answer ''{"score_value": "0.8", "rationale": "y"}'')] =
     (Inr \<lparr> raw_score_value = ''0.8'', score_value_description = PNone,
            score_type = float_scale, score_category = PStr ''harm'',
            score_rationale = PStr ''y'', scorer_class_identifier = example_identifier,
            score_metadata = PNone, prompt_request_response_id = ''id'', task = None \<rparr>, [])\<close>
proof -
  let ?bad = \<open>''{"rationale": "x"}''\<close>
  let ?ok = \<open>''{"score_value": "0.8", "rationale": "y"}''\<close>
  let ?dbad = "[(''rationale'', PStr ''x'')]"
  let ?dok = "[(''score_value'', PStr ''0.8''), (''rationale'', PStr ''y'')]"
  have a1: "scripted () [Inr (answer ?bad)] = (Inr (answer ?bad), [])"
    by simp
  have a2: "scripted () [Inr (answer ?ok)] = (Inr (answer ?ok), [])"
    by simp
  have b1: "request_pieces (answer ?bad) = \<lparr> converted_value = ?bad \<rparr> # []"
    by (simp add: answer_def)
  have b2: "request_pieces (answer ?ok) = \<lparr> converted_value = ?ok \<rparr> # []"
    by (simp add: answer_def)
  have c1: "example_loads (converted_value \<lparr> converted_value = ?bad \<rparr>) = Some (PDict ?dbad)"
    by (simp add: example_loads_def example_table_def)
  have c2: "example_loads (converted_value \<lparr> converted_value = ?ok \<rparr>) = Some (PDict ?dok)"
    by (simp add: example_loads_def example_table_def)
  have n1: "\<not> (truthy (dict_get ?dbad ''category'') \<and> truthy (opt_str (Some ''harm'')))"
    by (simp add: dict_get_def)
  have n2: "\<not> (truthy (dict_get ?dok ''category'') \<and> truthy (opt_str (Some ''harm'')))"
    by (simp add: dict_get_def)
  have bad: "send_chat_target_body example_loads (example_scorer true_false) scripted () ''id''
               (Some ''harm'') None [Inr (answer ?bad)] =
             (Inl (InvalidJsonException (''Invalid JSON response, missing Key: '' @ ?bad)), []) \<and>
             sublist ?bad (''Invalid JSON response, missing Key: '' @ ?bad)"
    using missing_key_after_category_check
        [where send_prompt_async = scripted and loads = example_loads and sid = "''id''"
           and t = None and self = "example_scorer true_false",
         OF a1 b1 c1 n1]
    by simp
  have ok: "send_chat_target_body example_loads (example_scorer float_scale) scripted () ''id''
               (Some ''harm'') None [Inr (answer ?ok)] =
     (Inr \<lparr> raw_score_value = ''0.8'', score_value_description = PNone,
            score_type = float_scale, score_category = PStr ''harm'',
            score_rationale = PStr ''y'', scorer_class_identifier = example_identifier,
            score_metadata = PNone, prompt_request_response_id = ''id'', task = None \<rparr>, [])"
    using missing_key_after_category_check
        [where send_prompt_async = scripted and loads = example_loads and sid = "''id''"
           and t = None and self = "example_scorer float_scale" and sv = "PStr ''0.8''"
           and r = "PStr ''y''",
         OF a2 b2 c2 n2]
    by (simp add: float_syntax_examples example_scorer_def get_identifier_def
        example_identifier_def)
  show ?thesis
    using bad ok c1 c2 by simp
qed

text \<open>
  Claim C5. When the text decodes to a value that is no object (a list, a str, a number,
  a bool, \<^verbatim>\<open>None\<close>), \<^verbatim>\<open>parsed_response.get\<close> of line 167 raises \<^verbatim>\<open>AttributeError\<close>. Neither
  handler catches it, so it is neither \<^verbatim>\<open>InvalidJsonException\<close> nor the \<^verbatim>\<open>ValueError\<close> of the
  category check; it is not recoverable, the call has made one attempt whatever the
  maximum, and the message is made of the name of the value's type only, not of the raw
  text.
\<close>

theorem non_object_json_not_retried:
  assumes "send_prompt_async rq s = (Inr response, s')"
    and "request_pieces response = piece # rest"
    and "loads (converted_value piece) = Some v"
    and "\<not> is_dict v"
  shows "send_chat_target_async max_attempts loads self send_prompt_async rq sid category t s =
           (Inl (AttributeError
                   (quoted (type_name v) @ '' object has no attribute '' @ quoted ''get'')),
            1, s') \<and>
         \<not> recoverable
             (AttributeError
                (quoted (type_name v) @ '' object has no attribute '' @ quoted ''get'')) \<and>
         \<not> is_ValueError
             (AttributeError
                (quoted (type_name v) @ '' object has no attribute '' @ quoted ''get''))"
proof -
  let ?e = "AttributeError (quoted (type_name v) @ '' object has no attribute '' @ quoted ''get'')"
  have "first_try loads self (converted_value piece) sid category t = Inl ?e"
    using assms(3,4) by (rule first_try_not_dict)
  then have "score_response loads self response sid category t = Inl ?e"
    using assms(2) by (simp add: score_response_first_piece first_except_def)
  then have "send_chat_target_body loads self send_prompt_async rq sid category t s = (Inl ?e, s')"
    using assms(1) by (simp add: send_chat_target_body_def)
  then show ?thesis
    by (simp add: send_chat_target_async_def pyrit_json_retry_def retry_from_fatal)
qed

theorem non_object_json_not_retried_witness:
  "scripted () [Inr (answer ''[1, 2]''), Inr (answer ''not json'')] =
     (Inr (answer ''[1, 2]''), [Inr (answer ''not json'')]) \<and>
   example_loads ''[1, 2]'' = Some (PList [PInt 1, PInt 2]) \<and>
   \<not> is_dict (PList [PInt 1, PInt 2]) \<and>
   send_chat_target_async 3 example_loads (example_scorer true_false) scripted () ''id''
       None None [Inr (answer ''[1, 2]''), Inr (answer ''not json'')] =
     (Inl (AttributeError (quoted ''list'' @ '' object has no attribute '' @ quoted ''get'')),
      1, [Inr (answer ''not json'')]) \<and>
   \<not> sublist ''[1, 2]'' (quoted ''list'' @ '' object has no attribute '' @ quoted ''get'')"
proof -
  have a: "scripted () [Inr (answer ''[1, 2]''), Inr (answer ''not json'')] =
             (Inr (answer ''[1, 2]''), [Inr (answer ''not json'')])"
    by simp
  have b: "request_pieces (answer ''[1, 2]'') = \<lparr> converted_value = ''[1, 2]'' \<rparr> # []"
    by (simp add: answer_def)
  have c: "example_loads (converted_value \<lparr> converted_value = ''[1, 2]'' \<rparr>) =
             Some (PList [PInt 1, PInt 2])"
    by (simp add: example_loads_def example_table_def)
  have d: "\<not> is_dict (PList [PInt 1, PInt 2])"
    by simp
  have e: "\<not> sublist ''[1, 2]'' (quoted ''list'' @ '' object has no attribute '' @ quoted ''get'')"
    by (simp add: quoted_def sublist_Cons_right)
  show ?thesis
    using non_object_json_not_retried
        [where send_prompt_async = scripted and loads = example_loads and max_attempts = 3
           and self = "example_scorer true_false" and sid = "''id''" and category = None
           and t = None,
         OF a b c d]
      a c e by simp
qed

text \<open>
  Claim C6 says that an empty \<^verbatim>\<open>rationale\<close> makes the call fail. The source reads the key
  (line 179) and checks nothing about its value: the score is returned with the empty
  rationale.
\<close>

theorem empty_rationale_counterexample:
  \<open>send_chat_target_body example_loads (example_scorer true_false) scripted () ''id'' None None
       [Inr (answer ''{"score_value": "true", "rationale": ""}'')] =
     (Inr \<lparr> raw_score_value = ''true'', score_value_description = PNone,
            score_type = true_false, score_category = PNone, score_rationale = PStr [],
            scorer_class_identifier = example_identifier, score_metadata = PNone,
            prompt_request_response_id = ''id'', task = None \<rparr>, [])\<close>
proof -
  have d: \<open>example_loads ''{"score_value": "true", "rationale": ""}'' =
            Some (PDict [(''score_value'', PStr ''true''), (''rationale'', PStr [])])\<close>
    by (simp add: example_loads_def example_table_def)
  show ?thesis
    by (simp add: send_chat_target_body_def score_response_def answer_def first_try_def d
        dict_get_def dict_item_def second_try_def
        example_scorer_def get_identifier_def example_identifier_def)
qed

text \<open>
  Claim C6, amended. Every \<^verbatim>\<open>UnvalidatedScore\<close> that the call returns carries as its
  rationale the value of the key \<^verbatim>\<open>rationale\<close> of the decoded object, so the key is there;
  and the value is not checked: whatever it is, also an empty text or \<^verbatim>\<open>None\<close>, the call
  returns a score with it when \<^verbatim>\<open>score_value\<close> is there, there is no category on both
  sides and, for \<^verbatim>\<open>float_scale\<close>, \<^verbatim>\<open>float\<close> accepts the value.
\<close>

theorem rationale_copied_unchecked:
  assumes "send_prompt_async rq s = (Inr response, s')"
  shows "(send_chat_target_body loads self send_prompt_async rq sid category t s = (Inr score, s'') \<longrightarrow>
            (\<exists>piece rest d. request_pieces response = piece # rest \<and>
               loads (converted_value piece) = Some (PDict d) \<and>
               map_of d ''rationale'' = Some (score_rationale score))) \<and>
         (request_pieces response = pc # rs \<and>
          loads (converted_value pc) = Some (PDict dd) \<and>
          map_of dd ''score_value'' = Some sv \<and> map_of dd ''rationale'' = Some r \<and>
          \<not> (truthy (dict_get dd ''category'') \<and> truthy (opt_str category)) \<and>
          (scorer_type self = float_scale \<longrightarrow> float_syntax (py_str sv) \<noteq> None) \<longrightarrow>
            (\<exists>sc. send_chat_target_body loads self send_prompt_async rq sid category t s =
                        (Inr sc, s') \<and>
                      score_rationale sc = r))"
proof -
  have body: "send_chat_target_body loads self send_prompt_async rq sid category t s =
                (score_response loads self response sid category t, s')"
    using assms by (simp add: send_chat_target_body_def)
  have one: "\<exists>piece rest d. request_pieces response = piece # rest \<and>
               loads (converted_value piece) = Some (PDict d) \<and>
               map_of d ''rationale'' = Some (score_rationale score)"
    if "send_chat_target_body loads self send_prompt_async rq sid category t s = (Inr score, s'')"
    using that body score_response_Inr [of loads self response sid category t score] by simp
  have two: "\<exists>sc. score_response loads self response sid category t = Inr sc \<and>
                      score_rationale sc = r"
    if "request_pieces response = pc # rs"
      "loads (converted_value pc) = Some (PDict dd)"
      "map_of dd ''score_value'' = Some sv" "map_of dd ''rationale'' = Some r"
      "\<not> (truthy (dict_get dd ''category'') \<and> truthy (opt_str category))"
      "scorer_type self = float_scale \<longrightarrow> float_syntax (py_str sv) \<noteq> None"
  proof (cases "scorer_type self = float_scale")
    case True
    with that show ?thesis
      by (simp add: score_response_first_piece
          first_try_dict [of loads "converted_value pc" dd] second_step_float_scale)
  next
    case False
    with that show ?thesis
      by (simp add: score_response_first_piece
          first_try_dict [of loads "converted_value pc" dd] second_step_other)
  qed
  from one two body show ?thesis
    by simp
qed

theorem rationale_copied_unchecked_witness:
  \<open>scripted () [Inr (answer ''{"score_value": "true", "rationale": ""}'')] =
     (Inr (answer ''{"score_value": "true", "rationale": ""}''), []) \<and>
   (\<exists>piece rest d.
      request_pieces (answer ''{"score_value": "true", "rationale": ""}'') = piece # rest \<and>
      example_loads (converted_value piece) = Some (PDict d) \<and>
      map_of d ''rationale'' = Some (PStr [])) \<and>
   (\<exists>sc.
      send_chat_target_body example_loads (example_scorer true_false) scripted () ''id'' None None
          [Inr (answer ''{"score_value": "true", "rationale": ""}'')] = (Inr sc, []) \<and>
      score_rationale sc = PStr [])\<close>
proof -
  let ?txt = \<open>''{"score_value": "true", "rationale": ""}''\<close>
  let ?d = "[(''score_value'', PStr ''true''), (''rationale'', PStr [])]"
  let ?score = "\<lparr> raw_score_value = ''true'', score_value_description = PNone,
            score_type = true_false, score_category = PNone, score_rationale = PStr [],
            scorer_class_identifier = example_identifier, score_metadata = PNone,
            prompt_request_response_id = ''id'', task = None \<rparr>"
  have a: "scripted () [Inr (answer ?txt)] = (Inr (answer ?txt), [])"
    by simp
  have b: "request_pieces (answer ?txt) = \<lparr> converted_value = ?txt \<rparr> # []"
    by (simp add: answer_def)
  have c: "example_loads (converted_value \<lparr> converted_value = ?txt \<rparr>) = Some (PDict ?d)"
    by (simp add: example_loads_def example_table_def)
  have n: "\<not> (truthy (dict_get ?d ''category'') \<and> truthy (opt_str None))"
    by simp
  have ty: "scorer_type (example_scorer true_false) \<noteq> float_scale"
    by (simp add: example_scorer_def)
  note th = rationale_copied_unchecked
      [where send_prompt_async = scripted and loads = example_loads and sid = "''id''"
         and t = None and self = "example_scorer true_false" and category = None
         and pc = "\<lparr> converted_value = ?txt \<rparr>" and rs = "[]" and dd = ?d
         and sv = "PStr ''true''" and r = "PStr []" and s'' = "[]" and score = ?score,
       OF a]
  have two: "\<exists>sc.
      send_chat_target_body example_loads (example_scorer true_false) scripted () ''id'' None None
          [Inr (answer ?txt)] = (Inr sc, []) \<and>
      score_rationale sc = PStr []"
    using th b c n ty by simp
  then have body: "send_chat_target_body example_loads (example_scorer true_false) scripted ()
      ''id'' None None [Inr (answer ?txt)] = (Inr ?score, [])"
    by (simp add: send_chat_target_body_def score_response_def answer_def first_try_def
        example_loads_def example_table_def
        dict_get_def dict_item_def second_try_def
        example_scorer_def get_identifier_def example_identifier_def)
  have one: "\<exists>piece rest d.
      request_pieces (answer ?txt) = piece # rest \<and>
      example_loads (converted_value piece) = Some (PDict d) \<and>
      map_of d ''rationale'' = Some (PStr [])"
    using th body by simp
  from a one two show ?thesis
    by simp
qed

text \<open>
  Claim C7. For all real \<open>v\<close>, \<open>lo\<close>, \<open>hi\<close>: \<^verbatim>\<open>scale_value_float(v, lo, hi)\<close> is
  \<open>(v - lo) / (hi - lo)\<close> when \<open>lo \<noteq> hi\<close>, and \<open>0\<close> when \<open>lo = hi\<close>.
\<close>

theorem scale_value_float_linear:
  "(lo \<noteq> hi \<longrightarrow> scale_value_float v lo hi = (v - lo) / (hi - lo)) \<and>
   (lo = hi \<longrightarrow> scale_value_float v lo hi = 0)"
  by (simp add: scale_value_float_def)

theorem scale_value_float_linear_witness:
  "(1::real) \<noteq> 5 \<and> scale_value_float 3 1 5 = 1 / 2 \<and> scale_value_float 3 2 2 = 0"
  using scale_value_float_linear [of 1 5 3] scale_value_float_linear [of 2 2 3] by simp

text \<open>
  Claim C8. Whatever the executor, \<^verbatim>\<open>score_prompts_batch_async\<close> hands it \<^verbatim>\<open>score_async\<close>, the
  scorer's \<^verbatim>\<open>_prompt_target\<close>, the subjects and the bound, which is 10 when \<^verbatim>\<open>batch_size\<close> is
  omitted, and returns the concatenation of the lists the executor returns. With the
  executor of the spec: when \<^verbatim>\<open>score_async\<close> gives the score lists \<open>results\<close> on the
  subjects, in their order, the method returns their concatenation in that order, for
  every positive batch size and for the default.
\<close>

theorem batch_scores_in_input_order:
  assumes "0 < batch_size"
    and "map score_async prompts = map Inr results"
  shows "score_prompts_batch_async batch_task self score_async prompts None =
           (case batch_task score_async (prompt_target_attr self) 10 prompts of
              Inl e \<Rightarrow> Inl e
            | Inr rs \<Rightarrow> Inr (concat rs)) \<and>
         score_prompts_batch_async batch_task self score_async prompts (Some b) =
           (case batch_task score_async (prompt_target_attr self) b prompts of
              Inl e \<Rightarrow> Inl e
            | Inr rs \<Rightarrow> Inr (concat rs)) \<and>
         score_prompts_batch_async batch_task_async self score_async prompts (Some batch_size) =
           Inr (concat results) \<and>
         score_prompts_batch_async batch_task_async self score_async prompts None =
           Inr (concat results) \<and>
         score_prompts_batch_async batch_task self score_async prompts None =
           score_prompts_batch_async batch_task self score_async prompts (Some 10)"
proof -
  have "batch_task_async score_async (prompt_target_attr self) k prompts = Inr results"
    if "0 < k" for k
  proof -
    from that have "0 < nat k" by simp
    with that assms(2) show ?thesis
      by (simp add: batch_task_async_def run_batches_collect collect_Inr)
  qed
  from this [of batch_size] this [of 10] assms(1) show ?thesis
    by (simp add: score_prompts_batch_async_def)
qed

theorem batch_scores_in_input_order_witness:
  "(0::int) < 2 \<and>
   map (\<lambda>p. Inr [10 * p, 10 * p + 1]) [1, 2, 3, 4, 5 :: nat] =
     map Inr [[10, 11], [20, 21], [30, 31], [40, 41], [50, 51]] \<and>
   score_prompts_batch_async batch_task_async (example_scorer true_false)
       (\<lambda>p. Inr [10 * p, 10 * p + 1]) [1, 2, 3, 4, 5 :: nat] (Some 2) =
     Inr [10, 11, 20, 21, 30, 31, 40, 41, 50, 51] \<and>
   batches 2 [1, 2, 3, 4, 5 :: nat] = [[1, 2], [3, 4], [5]] \<and>
   score_prompts_batch_async recording_executor
       ((example_scorer true_false) \<lparr> prompt_target_attr := Some () \<rparr>)
       (\<lambda>p. Inr []) [1 :: nat] None =
     Inr [(10, Some ())] \<and>
   score_prompts_batch_async recording_executor
       ((example_scorer true_false) \<lparr> prompt_target_attr := Some () \<rparr>)
       (\<lambda>p. Inr []) [1 :: nat] (Some 3) =
     Inr [(3, Some ())]"
proof -
  have a: "(0::int) < 2"
    by simp
  have b: "map (\<lambda>p. Inr [10 * p, 10 * p + 1] :: py_error + nat list) [1, 2, 3, 4, 5 :: nat] =
             map Inr [[10, 11], [20, 21], [30, 31], [40, 41], [50, 51]]"
    by simp
  have b': "map (\<lambda>p. Inr [] :: py_error + (int \<times> unit option) list) [1 :: nat] = map Inr [[]]"
    by simp
  have c: "batches 2 [1, 2, 3, 4, 5 :: nat] = [[1, 2], [3, 4], [5]]"
    by (simp add: batches.simps)
  have order:
    "score_prompts_batch_async batch_task_async (example_scorer true_false)
       (\<lambda>p. Inr [10 * p, 10 * p + 1]) [1, 2, 3, 4, 5 :: nat] (Some 2) =
     Inr [10, 11, 20, 21, 30, 31, 40, 41, 50, 51]"
    using batch_scores_in_input_order
        [OF a b, where self = "example_scorer true_false" and batch_task = batch_task_async
           and b = 2, THEN conjunct2, THEN conjunct2, THEN conjunct1]
    by simp
  have bound:
    "score_prompts_batch_async recording_executor
       ((example_scorer true_false) \<lparr> prompt_target_attr := Some () \<rparr>)
       (\<lambda>p. Inr []) [1 :: nat] None = Inr [(10, Some ())] \<and>
     score_prompts_batch_async recording_executor
       ((example_scorer true_false) \<lparr> prompt_target_attr := Some () \<rparr>)
       (\<lambda>p. Inr []) [1 :: nat] (Some 3) = Inr [(3, Some ())]"
  proof -
    note th = batch_scores_in_input_order
        [OF a b', where batch_task = recording_executor and b = 3
           and self = "(example_scorer true_false) \<lparr> prompt_target_attr := Some () \<rparr>"]
    show ?thesis
      using th [THEN conjunct1] th [THEN conjunct2, THEN conjunct1]
      by (simp add: recording_executor_def)
  qed
  from a b c order bound show ?thesis
    by simp
qed

text \<open>
  Claim C9. \<^verbatim>\<open>get_identifier\<close> returns the dict with the name of the scorer's class under
  \<^verbatim>\<open>__type__\<close>, the module of the class under \<^verbatim>\<open>__module__\<close> and \<^verbatim>\<open>None\<close> under
  \<^verbatim>\<open>sub_identifier\<close>; so two instances of one class have the same identifier.
\<close>

theorem get_identifier_structural:
  fixes self :: "('t, 'x) scorer_scheme" and other :: "('u, 'y) scorer_scheme"
  shows "get_identifier self =
       [(''__type__'', Some (class_name (scorer_class self))),
        (''__module__'', Some (class_module (scorer_class self))),
        (''sub_identifier'', None)] \<and>
     (scorer_class self = scorer_class other \<longrightarrow> get_identifier self = get_identifier other)"
  by (simp add: get_identifier_def)

theorem get_identifier_structural_witness:
  "example_scorer true_false \<noteq> example_scorer float_scale \<and>
   scorer_class (example_scorer true_false) = scorer_class (example_scorer float_scale) \<and>
   get_identifier (example_scorer true_false) = example_identifier \<and>
   get_identifier (example_scorer true_false) = get_identifier (example_scorer float_scale)"
  using get_identifier_structural [of "example_scorer true_false" "example_scorer float_scale"]
  by (simp add: example_scorer_def example_identifier_def get_identifier_def)

end
